theory Spec2Isabelle
  imports Main "HOL-Library.Word" "HOL-Library.Sublist"
begin

section \<open>JavaScript strings\<close>

text \<open>
  A JavaScript string is a sequence of 16-bit code units. The literals of the demo script
  are ASCII, except the bullet U+2022 of the default reply, so a literal is written as
  an ASCII string and lifted with \<open>js\<close>.
\<close>

type_synonym js_string = "16 word list"

definition js :: "string \<Rightarrow> js_string" where
  "js s = map (\<lambda>c. of_nat (of_char c)) s"

text \<open>
  \<open>String.prototype.includes\<close>: the argument occurs as a contiguous run of code units.
  The search tries every start position from left to right.
\<close>

fun includes_js :: "js_string \<Rightarrow> js_string \<Rightarrow> bool" where
  "includes_js [] s = (s = [])"
| "includes_js (c # cs) s = (prefix s (c # cs) \<or> includes_js cs s)"

text \<open>
  \<open>String.prototype.toLowerCase\<close>. On a string of ASCII code units it sends A-Z to
  a-z and keeps every other unit. On any other string the result comes from the Unicode
  case conversion of the JavaScript engine, which works on the whole string (U+212A
  becomes k, U+0130 becomes i followed by U+0307, the capital sigma depends on what
  follows it) and whose tables are not part of the repository: that conversion is the
  parameter \<open>unicodeLower\<close>, and every general result below holds for each value of
  it.
\<close>

definition isASCII :: "16 word \<Rightarrow> bool" where
  "isASCII u = (u < 0x80)"

definition toLowerASCII :: "16 word \<Rightarrow> 16 word" where
  "toLowerASCII u = (if 0x41 \<le> u \<and> u \<le> 0x5A then u + 0x20 else u)"

definition toLowerCase :: "(js_string \<Rightarrow> js_string) \<Rightarrow> js_string \<Rightarrow> js_string" where
  "toLowerCase unicodeLower s =
     (if list_all isASCII s then map toLowerASCII s else unicodeLower s)"

text \<open>
  \<open>String.prototype.trim\<close> removes white space and line terminators from both ends.
\<close>

definition isWhiteSpace :: "16 word \<Rightarrow> bool" where
  "isWhiteSpace u =
     (u \<in> {0x09, 0x0A, 0x0B, 0x0C, 0x0D, 0x20, 0xA0, 0x1680, 0x2028, 0x2029, 0x202F,
            0x205F, 0x3000, 0xFEFF}
      \<or> (0x2000 \<le> u \<and> u \<le> 0x200A))"

definition trim :: "js_string \<Rightarrow> js_string" where
  "trim s = rev (dropWhile isWhiteSpace (rev (dropWhile isWhiteSpace s)))"

section \<open>The medication catalog\<close>

record medication =
  name :: js_string
  genericName :: js_string
  dosage :: js_string
  drugClass :: js_string
  description :: js_string
  sideEffects :: js_string
  instructions :: js_string

definition metformin :: medication where
  "metformin =
     \<lparr>name = js ''Metformin'',
      genericName = js ''Metformin Hydrochloride'',
      dosage = js ''500mg'',
      drugClass = js ''Antidiabetic'',
      description = js ''Used to control blood sugar levels in people with type 2 diabetes.'',
      sideEffects = js ''Nausea, diarrhea, stomach upset'',
      instructions = js ''Take with food to reduce stomach upset''\<rparr>"

definition lisinopril :: medication where
  "lisinopril =
     \<lparr>name = js ''Lisinopril'',
      genericName = js ''Lisinopril'',
      dosage = js ''10mg'',
      drugClass = js ''ACE Inhibitor'',
      description = js ''Used to treat high blood pressure and heart failure.'',
      sideEffects = js ''Dizziness, dry cough, headache'',
      instructions = js ''Take once daily, preferably at the same time each day''\<rparr>"

definition aspirin :: medication where
  "aspirin =
     \<lparr>name = js ''Aspirin'',
      genericName = js ''Acetylsalicylic Acid'',
      dosage = js ''81mg'',
      drugClass = js ''Antiplatelet'',
      description = js ''Used to reduce the risk of heart attack and stroke.'',
      sideEffects = js ''Stomach upset, heartburn'',
      instructions = js ''Take with food or milk''\<rparr>"

text \<open>
  The object literal \<open>medicationDatabase\<close>, as an association list: \<open>Object.keys\<close>
  lists string keys in the order of insertion, and the index of the random draw selects
  by that order.
\<close>

definition medicationDatabase :: "(js_string \<times> medication) list" where
  "medicationDatabase =
     [(js ''metformin'', metformin), (js ''lisinopril'', lisinopril), (js ''aspirin'', aspirin)]"

definition Object_keys :: "(js_string \<times> medication) list \<Rightarrow> js_string list" where
  "Object_keys db = map fst db"

section \<open>The page state\<close>

text \<open>
  The two globals of the script, \<open>currentMedication\<close> and \<open>conversationHistory\<close>,
  and the properties of the page elements that the handlers assign: the \<open>hidden\<close>
  class of \<open>uploadZone\<close> and \<open>photoPreview\<close>, \<open>previewImage.src\<close>,
  \<open>fileInput.value\<close> and \<open>chatInput.value\<close>. The elements are taken to exist, as
  on the demo page. The rendered transcript (the children of \<open>chatMessages\<close>) is not
  part of the state: it is written by the two append functions and read by none.
\<close>

record message =
  role :: js_string
  content :: js_string

record state =
  currentMedication :: "medication option"
  conversationHistory :: "message list"
  uploadZoneHidden :: bool
  photoPreviewHidden :: bool
  previewImageSrc :: js_string
  fileInputValue :: js_string
  chatInputValue :: js_string

definition addUserMessage :: "js_string \<Rightarrow> state \<Rightarrow> state" where
  "addUserMessage text st =
     st\<lparr>conversationHistory := conversationHistory st @ [\<lparr>role = js ''user'', content = text\<rparr>]\<rparr>"

definition addAIMessage :: "js_string \<Rightarrow> state \<Rightarrow> state" where
  "addAIMessage text st =
     st\<lparr>conversationHistory := conversationHistory st @ [\<lparr>role = js ''ai'', content = text\<rparr>]\<rparr>"

section \<open>The response engine\<close>

definition refusalReply :: js_string where
  "refusalReply = js ''I can't provide advice on changing your medication dosage or treatment plan. Please consult your doctor or pharmacist for any changes to your prescribed medications. Your safety is my top priority!''"

definition sideEffectReply :: "medication \<Rightarrow> js_string" where
  "sideEffectReply m =
     js ''Common side effects of '' @ name m @ js '' include: '' @ sideEffects m
     @ js ''. \<newline>\<newline>If you experience severe or persistent side effects, please contact your healthcare provider immediately.''"

definition instructionsReply :: "medication \<Rightarrow> js_string" where
  "instructionsReply m =
     js ''**Instructions for '' @ name m @ js '':**\<newline>\<newline>'' @ instructions m
     @ js ''\<newline>\<newline>Always follow your doctor's specific instructions, as they may differ based on your individual needs.''"

definition identityReply :: "medication \<Rightarrow> js_string" where
  "identityReply m =
     name m @ js '' is a '' @ drugClass m @ js '' medication. '' @ description m
     @ js ''\<newline>\<newline>It's important to take it as prescribed by your doctor for the best results.''"

definition foodReply :: "medication \<Rightarrow> js_string" where
  "foodReply m =
     instructions m
     @ js ''\<newline>\<newline>If you're unsure about food interactions, check with your pharmacist or the medication guide that came with your prescription.''"

definition missedDoseReply :: "medication \<Rightarrow> js_string" where
  "missedDoseReply m =
     js ''If you miss a dose of '' @ name m
     @ js '', take it as soon as you remember. However, if it's almost time for your next dose, skip the missed dose and continue with your regular schedule.\<newline>\<newline>Never double up on doses. If you're unsure, contact your pharmacist for guidance.''"

definition thanksReply :: js_string where
  "thanksReply = js ''You're welcome! I'm here to help you understand your medications better. Feel free to ask anything else!''"

definition greetingReply :: js_string where
  "greetingReply = js ''Hello! I'm here to help you with your medication questions. Upload a photo of your pill, or ask me anything about your medications!''"

definition defaultReply :: "medication option \<Rightarrow> js_string" where
  "defaultReply cur =
     js ''I'd be happy to help with that! ''
     @ (case cur of Some m \<Rightarrow> js ''For '' @ name m @ js '', '' | None \<Rightarrow> [])
     @ js ''I can provide information about:\<newline>\<newline>''
     @ [0x2022] @ js '' Side effects\<newline>''
     @ [0x2022] @ js '' How to take it\<newline>''
     @ [0x2022] @ js '' What it's used for\<newline>''
     @ [0x2022] @ js '' What to do if you miss a dose\<newline>\<newline>What would you like to know?''"

text \<open>
  \<open>generateAIResponse\<close> reads the global \<open>currentMedication\<close> and assigns nothing; it
  is written in state-passing form, returning the reply and the state it leaves. The
  block under \<open>if (currentMedication)\<close> either returns a reply or falls through to the
  general rules: it is the inner \<open>case\<close>, with \<open>None\<close> for falling through.
\<close>

definition generateAIResponse ::
  "(js_string \<Rightarrow> js_string) \<Rightarrow> js_string \<Rightarrow> state \<Rightarrow> js_string \<times> state" where
  "generateAIResponse unicodeLower userMessage st =
     (let lowerMessage = toLowerCase unicodeLower userMessage in
      if includes_js lowerMessage (js ''dosage change'')
         \<or> includes_js lowerMessage (js ''stop taking'')
         \<or> includes_js lowerMessage (js ''instead of'')
         \<or> includes_js lowerMessage (js ''replace'')
      then (refusalReply, st)
      else
        (case
           (case currentMedication st of
              None \<Rightarrow> None
            | Some m \<Rightarrow>
                if includes_js lowerMessage (js ''side effect'') then Some (sideEffectReply m)
                else if includes_js lowerMessage (js ''how to take'')
                        \<or> includes_js lowerMessage (js ''instruction'')
                then Some (instructionsReply m)
                else if includes_js lowerMessage (js ''what is'')
                        \<or> includes_js lowerMessage (js ''what does'')
                then Some (identityReply m)
                else if includes_js lowerMessage (js ''food'')
                        \<or> includes_js lowerMessage (js ''eat'')
                then Some (foodReply m)
                else if includes_js lowerMessage (js ''miss'')
                        \<or> includes_js lowerMessage (js ''forgot'')
                then Some (missedDoseReply m)
                else None)
         of
           Some reply \<Rightarrow> (reply, st)
         | None \<Rightarrow>
             if includes_js lowerMessage (js ''thank'') then (thanksReply, st)
             else if includes_js lowerMessage (js ''hello'')
                     \<or> includes_js lowerMessage (js ''hi'')
             then (greetingReply, st)
             else (defaultReply (currentMedication st), st)))"

text \<open>
  The rule order as the specification words it: the context-dependent rules as a list of
  (trigger substrings, reply template), tried from the first to the last; the first rule
  with a trigger in the lowered message gives the reply.
\<close>

definition contextRules :: "(js_string list \<times> (medication \<Rightarrow> js_string)) list" where
  "contextRules =
     [([js ''side effect''], sideEffectReply),
      ([js ''how to take'', js ''instruction''], instructionsReply),
      ([js ''what is'', js ''what does''], identityReply),
      ([js ''food'', js ''eat''], foodReply),
      ([js ''miss'', js ''forgot''], missedDoseReply)]"

fun firstMatch :: "js_string \<Rightarrow> (js_string list \<times> 'a) list \<Rightarrow> 'a option" where
  "firstMatch lowerMessage [] = None"
| "firstMatch lowerMessage ((triggers, reply) # rules) =
     (if list_ex (includes_js lowerMessage) triggers then Some reply
      else firstMatch lowerMessage rules)"

definition refusalTriggered :: "js_string \<Rightarrow> bool" where
  "refusalTriggered lowerMessage =
     list_ex (includes_js lowerMessage)
       [js ''dosage change'', js ''stop taking'', js ''instead of'', js ''replace'']"

section \<open>Recognition, reset and the chat handlers\<close>

datatype error = TypeError

definition recognitionMessage :: "medication \<Rightarrow> js_string" where
  "recognitionMessage m =
     js ''I've identified your medication! This appears to be **'' @ name m
     @ js ''** ('' @ genericName m @ js ''), '' @ dosage m
     @ js ''.\<newline>\<newline>**What it's for:** '' @ description m
     @ js ''\<newline>\<newline>**Drug class:** '' @ drugClass m
     @ js ''\<newline>\<newline>Would you like to know more about side effects, dosage instructions, or anything else?''"

text \<open>
  \<open>recognizePill\<close>. The argument \<open>randomIndex\<close> is the value of
  \<open>Math.floor(Math.random() * meds.length)\<close>; \<open>Math.random()\<close> lies in [0, 1), so the
  index lies below \<open>meds.length\<close>. An index beyond the keys would read \<open>undefined\<close>
  twice, assign it to \<open>currentMedication\<close> and throw on \<open>currentMedication.name\<close>:
  that branch is the \<open>Inl\<close> below, with the state the throw leaves.
\<close>

definition recognizePill :: "nat \<Rightarrow> state \<Rightarrow> (error \<times> state) + state" where
  "recognizePill randomIndex st =
     (let meds = Object_keys medicationDatabase in
      case (if randomIndex < length meds
            then map_of medicationDatabase (meds ! randomIndex) else None) of
        Some m \<Rightarrow> Inr (addAIMessage (recognitionMessage m) (st\<lparr>currentMedication := Some m\<rparr>))
      | None \<Rightarrow> Inl (TypeError, st\<lparr>currentMedication := None\<rparr>))"

definition resetUpload :: "state \<Rightarrow> state" where
  "resetUpload st =
     st\<lparr>uploadZoneHidden := False, photoPreviewHidden := True, previewImageSrc := [],
        fileInputValue := [], currentMedication := None\<rparr>"

text \<open>
  The \<open>onload\<close> callback of \<open>handleImageUpload\<close>, with the data URL the reader
  produced; the timer it starts runs \<open>recognizePill\<close> later, as an event of its own.
\<close>

definition handleImageUpload_onload :: "js_string \<Rightarrow> state \<Rightarrow> state" where
  "handleImageUpload_onload result st =
     st\<lparr>uploadZoneHidden := True, photoPreviewHidden := False, previewImageSrc := result\<rparr>"

text \<open>
  \<open>sendMessage\<close> returns the state it leaves and the message its timer callback has
  captured (\<open>None\<close> when it returns early and starts no timer);
  \<open>sendMessage_timeout\<close> is that callback.
\<close>

definition sendMessage :: "state \<Rightarrow> state \<times> js_string option" where
  "sendMessage st =
     (let message = trim (chatInputValue st) in
      if message = [] then (st, None)
      else ((addUserMessage message st)\<lparr>chatInputValue := []\<rparr>, Some message))"

definition sendMessage_timeout ::
  "(js_string \<Rightarrow> js_string) \<Rightarrow> js_string \<Rightarrow> state \<Rightarrow> state" where
  "sendMessage_timeout unicodeLower message st =
     (case generateAIResponse unicodeLower message st of
        (response, st') \<Rightarrow> addAIMessage response st')"

text \<open>
  The events of the demo page and what each runs. The browser may deliver them in any
  order; a timer event carries what its callback captured or drew.
\<close>

datatype event =
    FileLoaded js_string
  | RecognitionTimer nat
  | ResetClicked
  | InputTyped js_string
  | SendClicked
  | ReplyTimer js_string

fun handle_event :: "(js_string \<Rightarrow> js_string) \<Rightarrow> event \<Rightarrow> state \<Rightarrow> state" where
  "handle_event unicodeLower (FileLoaded result) st = handleImageUpload_onload result st"
| "handle_event unicodeLower (RecognitionTimer i) st =
     (case recognizePill i st of Inl (e, st') \<Rightarrow> st' | Inr st' \<Rightarrow> st')"
| "handle_event unicodeLower ResetClicked st = resetUpload st"
| "handle_event unicodeLower (InputTyped s) st = st\<lparr>chatInputValue := s\<rparr>"
| "handle_event unicodeLower SendClicked st = fst (sendMessage st)"
| "handle_event unicodeLower (ReplyTimer message) st = sendMessage_timeout unicodeLower message st"

definition run_events :: "(js_string \<Rightarrow> js_string) \<Rightarrow> event list \<Rightarrow> state \<Rightarrow> state" where
  "run_events unicodeLower es st = fold (handle_event unicodeLower) es st"

section \<open>The backend startup script\<close>

text \<open>
  \<open>start.sh\<close> looks at three entries of its working directory: \<open>venv\<close>,
  \<open>.env\<close> and \<open>.env.example\<close>. A regular file is its content, a sequence of
  bytes. Sourcing \<open>venv/bin/activate\<close> is taken not to end the script.
\<close>

datatype dir_entry = Absent | Directory | RegularFile string

record workdir =
  venv :: dir_entry
  dotenv :: dir_entry
  dotenv_example :: dir_entry

datatype outcome = Exit nat | RunServer

text \<open>The lines of a file: the runs of bytes between line feeds.\<close>

fun split_lines :: "string \<Rightarrow> string list" where
  "split_lines [] = [[]]"
| "split_lines (c # cs) =
     (if c = CHR 0x0A then [] # split_lines cs
      else (case split_lines cs of
              l # ls \<Rightarrow> (c # l) # ls
            | [] \<Rightarrow> [[c]]))"

text \<open>
  \<open>grep -q "GEMINI_API_KEY=.*[^_]" .env\<close>. On a file of ASCII text (every byte from
  0x01 to 0x7F) it succeeds when some line holds the text \<open>GEMINI_API_KEY=\<close> and,
  anywhere after it, a character other than the underscore. On a file with a NUL byte or
  a byte above 0x7F the answer depends on how grep treats binary files and on the
  encoding of the locale, which the script does not fix: there it is the parameter
  \<open>grep_other\<close>.
\<close>

definition key_assignment :: string where
  "key_assignment = ''GEMINI_API_KEY=''"

definition isTextByte :: "char \<Rightarrow> bool" where
  "isTextByte c = (0 < (of_char c :: nat) \<and> (of_char c :: nat) < 0x80)"

fun line_matches :: "string \<Rightarrow> bool" where
  "line_matches [] = False"
| "line_matches (c # cs) =
     ((prefix key_assignment (c # cs)
       \<and> list_ex (\<lambda>x. x \<noteq> CHR ''_'') (drop (length key_assignment) (c # cs)))
      \<or> line_matches cs)"

definition grep_q :: "(string \<Rightarrow> bool) \<Rightarrow> string \<Rightarrow> bool" where
  "grep_q grep_other bytes =
     (if list_all isTextByte bytes then list_ex line_matches (split_lines bytes)
      else grep_other bytes)"

text \<open>
  \<open>cp .env.example .env\<close>, run only when \<open>.env\<close> is no regular file: it creates
  \<open>.env\<close> when the example is a regular file and \<open>.env\<close> is absent.
\<close>

definition cp_example :: "workdir \<Rightarrow> workdir" where
  "cp_example w =
     (case (dotenv_example w, dotenv w) of
        (RegularFile bytes, Absent) \<Rightarrow> w\<lparr>dotenv := RegularFile bytes\<rparr>
      | _ \<Rightarrow> w)"

definition start_sh :: "(string \<Rightarrow> bool) \<Rightarrow> workdir \<Rightarrow> outcome \<times> workdir" where
  "start_sh grep_other w =
     (if venv w \<noteq> Directory then (Exit 1, w)
      else
        (case dotenv w of
           RegularFile bytes \<Rightarrow>
             if \<not> grep_q grep_other bytes then (Exit 1, w) else (RunServer, w)
         | _ \<Rightarrow> (Exit 1, cp_example w)))"

text \<open>
  A configuration file with the placeholder that the script itself prints for the key
  (\<open>echo "GEMINI_API_KEY=your_api_key_here"\<close>).
\<close>

definition placeholder_file :: string where
  "placeholder_file = ''GEMINI_API_KEY=your_api_key_here\<newline>''"

section \<open>A state for the examples\<close>

text \<open>
  The page after an image has been loaded and before any message, with the given
  current medication. The utterances of the examples are ASCII, so the Unicode
  conversion is never consulted for them; the examples pass the identity for it.
\<close>

definition exampleState :: "medication option \<Rightarrow> state" where
  "exampleState cur =
     \<lparr>currentMedication = cur, conversationHistory = [],
      uploadZoneHidden = True, photoPreviewHidden = False, previewImageSrc = js ''data:image/png;base64,AAAA'',
      fileInputValue = js ''pill.png'', chatInputValue = []\<rparr>"

section \<open>Substring search\<close>

lemma includes_js_sublist: "includes_js xs s \<longleftrightarrow> sublist s xs"
  by (induction xs) (simp_all add: sublist_Cons_right)

lemma includes_js_iff: "includes_js xs s \<longleftrightarrow> (\<exists>ps ss. xs = ps @ s @ ss)"
  by (simp add: includes_js_sublist sublist_def)

lemma includes_js_middle: "includes_js (ps @ s @ ss) s"
  by (auto simp: includes_js_iff)

lemma includes_js_append_right: "includes_js xs s \<Longrightarrow> includes_js (ps @ xs) s"
  by (metis append.assoc includes_js_iff)

lemma includes_js_append_left: "includes_js xs s \<Longrightarrow> includes_js (xs @ ss) s"
  by (metis append.assoc includes_js_iff)

lemma includes_js_self: "includes_js s s"
  using includes_js_middle [of "[]" s "[]"] by simp

lemmas includes_js_intros =
  includes_js_self includes_js_append_left includes_js_append_right

section \<open>Facts about the replies\<close>

lemmas eval_js = js_def toLowerCase_def toLowerASCII_def isASCII_def refusalTriggered_def

lemma refusalTriggered_iff:
  "refusalTriggered l \<longleftrightarrow>
     includes_js l (js ''dosage change'') \<or> includes_js l (js ''stop taking'')
     \<or> includes_js l (js ''instead of'') \<or> includes_js l (js ''replace'')"
  by (simp add: refusalTriggered_def)

lemma hd_replies:
  "hd refusalReply = 0x49" "hd thanksReply = 0x59" "hd greetingReply = 0x48"
  "hd (defaultReply cur) = 0x49"
  by (simp_all add: refusalReply_def thanksReply_def greetingReply_def defaultReply_def js_def)

lemma last_replies:
  "last greetingReply = 0x21" "last (identityReply m) = 0x2E"
  by (simp_all add: greetingReply_def identityReply_def js_def)

lemma greeting_neq_default: "greetingReply \<noteq> defaultReply cur"
proof
  assume "greetingReply = defaultReply cur"
  then have "hd greetingReply = hd (defaultReply cur)" by simp
  then show False by (simp add: hd_replies)
qed

lemma greeting_neq_identity: "greetingReply \<noteq> identityReply m"
proof
  assume "greetingReply = identityReply m"
  then have "last greetingReply = last (identityReply m)" by simp
  then show False by (simp add: last_replies)
qed

lemma thanks_neq_greeting: "thanksReply \<noteq> greetingReply"
proof
  assume "thanksReply = greetingReply"
  then have "hd thanksReply = hd greetingReply" by simp
  then show False by (simp add: hd_replies)
qed

lemma replies_nonempty:
  "refusalReply \<noteq> []" "sideEffectReply m \<noteq> []" "instructionsReply m \<noteq> []"
  "identityReply m \<noteq> []" "foodReply m \<noteq> []" "missedDoseReply m \<noteq> []"
  "thanksReply \<noteq> []" "greetingReply \<noteq> []" "defaultReply cur \<noteq> []"
  by (simp_all add: refusalReply_def sideEffectReply_def instructionsReply_def identityReply_def
      foodReply_def missedDoseReply_def thanksReply_def greetingReply_def defaultReply_def js_def)

lemma generateAIResponse_snd: "snd (generateAIResponse unicodeLower u st) = st"
  by (simp add: generateAIResponse_def Let_def split: option.split)

lemma generateAIResponse_nonempty: "fst (generateAIResponse unicodeLower u st) \<noteq> []"
  by (simp add: generateAIResponse_def Let_def replies_nonempty split: option.split)

lemma sendMessage_timeout_eq:
  "sendMessage_timeout unicodeLower u st = addAIMessage (fst (generateAIResponse unicodeLower u st)) st"
proof -
  obtain r where g: "generateAIResponse unicodeLower u st = (r, st)"
    using generateAIResponse_snd [of unicodeLower u st] by (metis prod.collapse)
  show ?thesis by (simp add: sendMessage_timeout_def g)
qed

section \<open>The refusal rule\<close>

text \<open>
  C1. Whenever the lowercased utterance contains "dosage change", "stop taking",
  "instead of" or "replace", generateAIResponse returns the fixed refusal message, for
  every state: with a current medication or without one, and whatever other keywords the
  utterance contains.
\<close>

theorem refusal_takes_precedence:
  assumes "includes_js (toLowerCase unicodeLower u) (js ''dosage change'')
           \<or> includes_js (toLowerCase unicodeLower u) (js ''stop taking'')
           \<or> includes_js (toLowerCase unicodeLower u) (js ''instead of'')
           \<or> includes_js (toLowerCase unicodeLower u) (js ''replace'')"
  shows "fst (generateAIResponse unicodeLower u st) = refusalReply"
  using assms by (simp add: generateAIResponse_def Let_def)

theorem refusal_takes_precedence_witness:
  "includes_js (toLowerCase id (js ''What is the side effect if I REPLACE it with food?'')) (js ''replace'')
   \<and> includes_js (toLowerCase id (js ''What is the side effect if I REPLACE it with food?'')) (js ''side effect'')
   \<and> fst (generateAIResponse id (js ''What is the side effect if I REPLACE it with food?'')
        (exampleState (Some metformin))) = refusalReply
   \<and> includes_js
        (toLowerCase (\<lambda>s. js ''stop taking it'') (js ''stop ta'' @ [0x212A] @ js ''ing it''))
        (js ''stop taking'')
   \<and> fst (generateAIResponse (\<lambda>s. js ''stop taking it'')
             (js ''stop ta'' @ [0x212A] @ js ''ing it'') (exampleState None)) = refusalReply"
proof -
  have k: "includes_js
        (toLowerCase (\<lambda>s. js ''stop taking it'') (js ''stop ta'' @ [0x212A] @ js ''ing it''))
        (js ''stop taking'')"
    by (simp add: eval_js)
  have h: "includes_js (toLowerCase id (js ''What is the side effect if I REPLACE it with food?'')) (js ''replace'')"
    by (simp add: eval_js)
  have s: "includes_js (toLowerCase id (js ''What is the side effect if I REPLACE it with food?'')) (js ''side effect'')"
    by (simp add: eval_js)
  show ?thesis
    using h s k
      refusal_takes_precedence [of id "js ''What is the side effect if I REPLACE it with food?''"]
      refusal_takes_precedence [of "\<lambda>s. js ''stop taking it''"
        "js ''stop ta'' @ [0x212A] @ js ''ing it''"]
    by blast
qed

section \<open>Replies without a current medication\<close>

text \<open>
  C2 as worded expects the fallback message for "what is this" without a current
  medication. The word "this" contains "hi", so the greeting rule answers before the
  fallback is reached.
\<close>

theorem what_is_this_counterexample:
  "fst (generateAIResponse id (js ''what is this'') (exampleState None)) \<noteq> defaultReply None"
proof -
  have "fst (generateAIResponse id (js ''what is this'') (exampleState None)) = greetingReply"
    by (simp add: generateAIResponse_def exampleState_def Let_def eval_js)
  then show ?thesis by (simp add: greeting_neq_default)
qed

text \<open>
  C2, amended. When currentMedication is absent, none of the context-dependent rules
  fires: the reply is decided by the refusal rule, the gratitude rule, the greeting rule
  and the fallback alone, in that order. In particular "what is this" without a current
  medication gets the greeting reply, which is neither the identity template of any
  medication nor the fallback message.
\<close>

theorem no_context_rule_without_medication:
  assumes "currentMedication st = None"
  shows "fst (generateAIResponse unicodeLower u st) =
           (if refusalTriggered (toLowerCase unicodeLower u) then refusalReply
            else if includes_js (toLowerCase unicodeLower u) (js ''thank'') then thanksReply
            else if includes_js (toLowerCase unicodeLower u) (js ''hello'')
                    \<or> includes_js (toLowerCase unicodeLower u) (js ''hi'') then greetingReply
            else defaultReply None)
         \<and> fst (generateAIResponse unicodeLower (js ''what is this'') st) = greetingReply
         \<and> greetingReply \<noteq> identityReply m \<and> greetingReply \<noteq> defaultReply None"
proof -
  have a: "fst (generateAIResponse unicodeLower v st) =
           (if refusalTriggered (toLowerCase unicodeLower v) then refusalReply
            else if includes_js (toLowerCase unicodeLower v) (js ''thank'') then thanksReply
            else if includes_js (toLowerCase unicodeLower v) (js ''hello'')
                    \<or> includes_js (toLowerCase unicodeLower v) (js ''hi'') then greetingReply
            else defaultReply None)" for v
    using assms by (simp add: generateAIResponse_def Let_def refusalTriggered_iff)
  have b: "fst (generateAIResponse unicodeLower (js ''what is this'') st) = greetingReply"
    unfolding a by (simp add: eval_js)
  show ?thesis using a b greeting_neq_identity greeting_neq_default by blast
qed

theorem no_context_rule_without_medication_witness:
  "currentMedication (exampleState None) = None
   \<and> fst (generateAIResponse id (js ''What is it?'') (exampleState None)) = defaultReply None
   \<and> fst (generateAIResponse id (js ''what is this'') (exampleState None)) = greetingReply"
proof -
  have h: "currentMedication (exampleState None) = None" by (simp add: exampleState_def)
  have c: "\<not> refusalTriggered (toLowerCase id (js ''What is it?''))"
    "\<not> includes_js (toLowerCase id (js ''What is it?'')) (js ''thank'')"
    "\<not> includes_js (toLowerCase id (js ''What is it?'')) (js ''hello'')"
    "\<not> includes_js (toLowerCase id (js ''What is it?'')) (js ''hi'')"
    by (simp_all add: eval_js)
  show ?thesis
    using no_context_rule_without_medication [OF h, where u = "js ''What is it?''" and unicodeLower = id] h c by simp
qed

section \<open>Side effects of Lisinopril\<close>

text \<open>
  C3 as worded covers every utterance that contains "side effect". One that also
  contains a refusal trigger is refused, and the refusal message does not list the side
  effects.
\<close>

theorem side_effect_replace_counterexample:
  "includes_js (toLowerCase id (js ''Any side effect if I replace it?'')) (js ''side effect'')
   \<and> \<not> includes_js
         (fst (generateAIResponse id (js ''Any side effect if I replace it?'')
                (exampleState (Some lisinopril))))
         (js ''Dizziness, dry cough, headache'')"
proof -
  have a: "includes_js (toLowerCase id (js ''Any side effect if I replace it?'')) (js ''side effect'')"
    by (simp add: eval_js)
  have b: "fst (generateAIResponse id (js ''Any side effect if I replace it?'')
                (exampleState (Some lisinopril))) = refusalReply"
    by (simp add: generateAIResponse_def Let_def eval_js)
  have c: "\<not> includes_js refusalReply (js ''Dizziness, dry cough, headache'')"
    by (simp add: refusalReply_def js_def)
  show ?thesis using a b c by simp
qed

text \<open>
  C3, amended. For every utterance whose lowercased form contains "side effect" and no
  refusal trigger, when currentMedication is the Lisinopril record of the catalog, the
  reply contains "Dizziness, dry cough, headache".
\<close>

theorem lisinopril_side_effects:
  assumes "includes_js (toLowerCase unicodeLower u) (js ''side effect'')"
    and "\<not> refusalTriggered (toLowerCase unicodeLower u)"
    and "currentMedication st = Some lisinopril"
  shows "includes_js (fst (generateAIResponse unicodeLower u st)) (js ''Dizziness, dry cough, headache'')"
proof -
  have "fst (generateAIResponse unicodeLower u st) = sideEffectReply lisinopril"
    using assms by (simp add: generateAIResponse_def Let_def refusalTriggered_iff)
  moreover have "sideEffects lisinopril = js ''Dizziness, dry cough, headache''"
    by (simp add: lisinopril_def)
  ultimately show ?thesis
    unfolding sideEffectReply_def
    by (metis includes_js_middle append.assoc)
qed

theorem lisinopril_side_effects_witness:
  "includes_js (toLowerCase id (js ''Does it have a Side Effect?'')) (js ''side effect'')
   \<and> \<not> refusalTriggered (toLowerCase id (js ''Does it have a Side Effect?''))
   \<and> currentMedication (exampleState (Some lisinopril)) = Some lisinopril
   \<and> includes_js
        (fst (generateAIResponse id (js ''Does it have a Side Effect?'')
               (exampleState (Some lisinopril))))
        (js ''Dizziness, dry cough, headache'')"
proof -
  have a: "includes_js (toLowerCase id (js ''Does it have a Side Effect?'')) (js ''side effect'')"
    by (simp add: eval_js)
  have b: "\<not> refusalTriggered (toLowerCase id (js ''Does it have a Side Effect?''))"
    by (simp add: eval_js)
  have c: "currentMedication (exampleState (Some lisinopril)) = Some lisinopril"
    by (simp add: exampleState_def)
  show ?thesis using a b c lisinopril_side_effects [OF a b c] by blast
qed

section \<open>The order of the context-dependent rules\<close>

text \<open>
  C4. With a current medication and no refusal trigger in the utterance, the
  context-dependent rules are tried in the order side effect, instructions, identity,
  food, missed dose, and the reply is the template of the first rule that matches,
  filled from the current medication. An utterance with both "side effect" and "food"
  gets the side-effect reply.
\<close>

theorem context_rules_in_order:
  assumes "currentMedication st = Some m"
    and "\<not> refusalTriggered (toLowerCase unicodeLower u)"
    and "firstMatch (toLowerCase unicodeLower u) contextRules = Some reply"
  shows "fst (generateAIResponse unicodeLower u st) = reply m"
  using assms
  by (auto simp add: generateAIResponse_def Let_def refusalTriggered_iff contextRules_def
      split: if_splits)

theorem context_rules_in_order_witness:
  "currentMedication (exampleState (Some metformin)) = Some metformin
   \<and> \<not> refusalTriggered (toLowerCase id (js ''Any side effect with food?''))
   \<and> includes_js (toLowerCase id (js ''Any side effect with food?'')) (js ''side effect'')
   \<and> includes_js (toLowerCase id (js ''Any side effect with food?'')) (js ''food'')
   \<and> firstMatch (toLowerCase id (js ''Any side effect with food?'')) contextRules = Some sideEffectReply
   \<and> fst (generateAIResponse id (js ''Any side effect with food?'') (exampleState (Some metformin)))
       = sideEffectReply metformin"
proof -
  have a: "currentMedication (exampleState (Some metformin)) = Some metformin"
    by (simp add: exampleState_def)
  have b: "\<not> refusalTriggered (toLowerCase id (js ''Any side effect with food?''))"
    by (simp add: eval_js)
  have c: "includes_js (toLowerCase id (js ''Any side effect with food?'')) (js ''side effect'')"
    "includes_js (toLowerCase id (js ''Any side effect with food?'')) (js ''food'')"
    by (simp_all add: eval_js)
  have d: "firstMatch (toLowerCase id (js ''Any side effect with food?'')) contextRules = Some sideEffectReply"
    using c(1) by (simp add: contextRules_def)
  show ?thesis using a b c d context_rules_in_order [OF a b d] by blast
qed

section \<open>Recognition\<close>

lemma recognitionMessage_includes:
  "includes_js (recognitionMessage m) (name m)"
  "includes_js (recognitionMessage m) (genericName m)"
  "includes_js (recognitionMessage m) (dosage m)"
  "includes_js (recognitionMessage m) (description m)"
  "includes_js (recognitionMessage m) (drugClass m)"
  unfolding recognitionMessage_def
  by (intro includes_js_intros)+

lemma recognitionMessage_nonempty: "recognitionMessage m \<noteq> []"
  by (simp add: recognitionMessage_def js_def)

lemma recognizePill_catalog:
  assumes "i < length (Object_keys medicationDatabase)"
  shows "recognizePill i st =
           Inr (addAIMessage (recognitionMessage (snd (medicationDatabase ! i)))
                  (st\<lparr>currentMedication := Some (snd (medicationDatabase ! i))\<rparr>))"
proof -
  from assms have "i < 3" by (simp add: Object_keys_def medicationDatabase_def)
  then consider "i = 0" | "i = 1" | "i = 2" by linarith
  then show ?thesis
    by cases (simp_all add: recognizePill_def Object_keys_def medicationDatabase_def js_def)
qed

text \<open>
  C5. The catalog has three entries. For every index the random draw can give,
  recognizePill succeeds, sets currentMedication to a member of the catalog, and appends
  exactly one assistant message to the history; the message is not empty and contains
  the name, the generic name, the dosage, the description and the drug class of the
  selected record.
\<close>

theorem recognizePill_selects_catalog_entry:
  assumes "randomIndex < length (Object_keys medicationDatabase)"
  shows "length medicationDatabase = 3
         \<and> (\<exists>m st'. recognizePill randomIndex st = Inr st'
              \<and> m \<in> snd ` set medicationDatabase
              \<and> currentMedication st' = Some m
              \<and> conversationHistory st' =
                  conversationHistory st @ [\<lparr>role = js ''ai'', content = recognitionMessage m\<rparr>]
              \<and> recognitionMessage m \<noteq> []
              \<and> includes_js (recognitionMessage m) (name m)
              \<and> includes_js (recognitionMessage m) (genericName m)
              \<and> includes_js (recognitionMessage m) (dosage m)
              \<and> includes_js (recognitionMessage m) (description m)
              \<and> includes_js (recognitionMessage m) (drugClass m))"
proof -
  let ?m = "snd (medicationDatabase ! randomIndex)"
  have len: "length medicationDatabase = 3" by (simp add: medicationDatabase_def)
  from assms have "randomIndex < length medicationDatabase" by (simp add: Object_keys_def)
  then have mem: "?m \<in> snd ` set medicationDatabase" by simp
  have run: "recognizePill randomIndex st =
               Inr (addAIMessage (recognitionMessage ?m) (st\<lparr>currentMedication := Some ?m\<rparr>))"
    using assms by (rule recognizePill_catalog)
  have cur: "currentMedication (addAIMessage (recognitionMessage ?m) (st\<lparr>currentMedication := Some ?m\<rparr>)) = Some ?m"
    by (simp add: addAIMessage_def)
  have hist: "conversationHistory (addAIMessage (recognitionMessage ?m) (st\<lparr>currentMedication := Some ?m\<rparr>))
        = conversationHistory st @ [\<lparr>role = js ''ai'', content = recognitionMessage ?m\<rparr>]"
    by (simp add: addAIMessage_def)
  show ?thesis
    using len mem run cur hist recognitionMessage_nonempty [of ?m] recognitionMessage_includes [of ?m]
    by blast
qed

theorem recognizePill_selects_catalog_entry_witness:
  "(1::nat) < length (Object_keys medicationDatabase)
   \<and> recognizePill 1 (exampleState None) =
       Inr ((exampleState (Some lisinopril))
             \<lparr>conversationHistory := [\<lparr>role = js ''ai'', content = recognitionMessage lisinopril\<rparr>]\<rparr>)
   \<and> (\<exists>m st'. recognizePill 1 (exampleState None) = Inr st' \<and> currentMedication st' = Some m
         \<and> includes_js (recognitionMessage m) (name m))"
proof -
  have h: "(1::nat) < length (Object_keys medicationDatabase)"
    by (simp add: Object_keys_def medicationDatabase_def)
  have r: "recognizePill 1 (exampleState None) =
       Inr ((exampleState (Some lisinopril))
             \<lparr>conversationHistory := [\<lparr>role = js ''ai'', content = recognitionMessage lisinopril\<rparr>]\<rparr>)"
    by (simp add: recognizePill_def Object_keys_def medicationDatabase_def js_def
        addAIMessage_def exampleState_def)
  show ?thesis
    using h r recognizePill_selects_catalog_entry [OF h, of "exampleState None"] by blast
qed

section \<open>Reset\<close>

text \<open>
  C6. resetUpload sets currentMedication to absent and the source of the preview image
  to the empty string, and leaves the conversation history as it was.
\<close>

theorem resetUpload_keeps_history:
  "currentMedication (resetUpload st) = None
   \<and> previewImageSrc (resetUpload st) = []
   \<and> conversationHistory (resetUpload st) = conversationHistory st"
  by (simp add: resetUpload_def)

theorem resetUpload_keeps_history_witness:
  "currentMedication (resetUpload ((exampleState (Some aspirin))
       \<lparr>conversationHistory := [\<lparr>role = js ''user'', content = js ''hello''\<rparr>]\<rparr>)) = None
   \<and> previewImageSrc (resetUpload ((exampleState (Some aspirin))
       \<lparr>conversationHistory := [\<lparr>role = js ''user'', content = js ''hello''\<rparr>]\<rparr>)) = []
   \<and> conversationHistory (resetUpload ((exampleState (Some aspirin))
       \<lparr>conversationHistory := [\<lparr>role = js ''user'', content = js ''hello''\<rparr>]\<rparr>))
      = [\<lparr>role = js ''user'', content = js ''hello''\<rparr>]"
  using resetUpload_keeps_history [of "(exampleState (Some aspirin))
       \<lparr>conversationHistory := [\<lparr>role = js ''user'', content = js ''hello''\<rparr>]\<rparr>"]
  by simp

section \<open>The response engine changes nothing\<close>

text \<open>
  C7. For every utterance and every state, generateAIResponse returns a reply (a
  non-empty string) and leaves the state as it found it, currentMedication and the
  history included. The reply enters the history through the caller only: the timer
  callback of sendMessage appends it as one assistant entry.
\<close>

theorem generateAIResponse_reads_only:
  "snd (generateAIResponse unicodeLower u st) = st
   \<and> fst (generateAIResponse unicodeLower u st) \<noteq> []
   \<and> currentMedication (sendMessage_timeout unicodeLower u st) = currentMedication st
   \<and> conversationHistory (sendMessage_timeout unicodeLower u st) =
       conversationHistory st @ [\<lparr>role = js ''ai'', content = fst (generateAIResponse unicodeLower u st)\<rparr>]"
proof -
  obtain r where g: "generateAIResponse unicodeLower u st = (r, st)"
    using generateAIResponse_snd [of unicodeLower u st] by (metis prod.collapse)
  have "sendMessage_timeout unicodeLower u st = addAIMessage (fst (generateAIResponse unicodeLower u st)) st"
    by (simp add: sendMessage_timeout_def g)
  then show ?thesis
    using generateAIResponse_snd generateAIResponse_nonempty by (simp add: addAIMessage_def)
qed

theorem generateAIResponse_reads_only_witness:
  "generateAIResponse id (js ''Thank you'') (exampleState (Some aspirin))
     = (thanksReply, exampleState (Some aspirin))
   \<and> conversationHistory (sendMessage_timeout id (js ''Thank you'') (exampleState (Some aspirin)))
     = [\<lparr>role = js ''ai'', content = thanksReply\<rparr>]"
proof -
  have a: "fst (generateAIResponse id (js ''Thank you'') (exampleState (Some aspirin))) = thanksReply"
    by (simp add: generateAIResponse_def Let_def exampleState_def eval_js)
  have b: "conversationHistory (exampleState (Some aspirin)) = []"
    by (simp add: exampleState_def)
  show ?thesis
    using a b generateAIResponse_reads_only [of id "js ''Thank you''" "exampleState (Some aspirin)"]
    by (metis append_Nil prod.collapse)
qed

section \<open>The history only grows\<close>

lemma handle_event_history:
  "prefix (conversationHistory st) (conversationHistory (handle_event unicodeLower e st))"
proof (cases e)
  case (RecognitionTimer i)
  then show ?thesis
    by (simp add: recognizePill_def Let_def addAIMessage_def split: option.split)
next
  case SendClicked
  then show ?thesis by (simp add: sendMessage_def Let_def addUserMessage_def)
next
  case (ReplyTimer message)
  then show ?thesis by (simp add: sendMessage_timeout_eq addAIMessage_def)
qed (simp_all add: handleImageUpload_onload_def resetUpload_def)

lemma run_events_history:
  "prefix (conversationHistory st) (conversationHistory (run_events unicodeLower es st))"
proof (induction es arbitrary: st)
  case Nil
  then show ?case by (simp add: run_events_def)
next
  case (Cons e es)
  have "prefix (conversationHistory st) (conversationHistory (handle_event unicodeLower e st))"
    by (rule handle_event_history)
  also have "prefix \<dots> (conversationHistory (run_events unicodeLower es (handle_event unicodeLower e st)))"
    by (rule Cons.IH)
  finally show ?case by (simp add: run_events_def)
qed

text \<open>
  C8. addUserMessage appends exactly one entry with role 'user' at the end of the
  history, addAIMessage exactly one entry with the assistant role ('ai'), and after any
  sequence of events of the demo page the earlier history is a prefix of the later one:
  no entry is removed, changed or moved.
\<close>

theorem history_append_only:
  "conversationHistory (addUserMessage t st) =
     conversationHistory st @ [\<lparr>role = js ''user'', content = t\<rparr>]
   \<and> conversationHistory (addAIMessage t st) =
     conversationHistory st @ [\<lparr>role = js ''ai'', content = t\<rparr>]
   \<and> prefix (conversationHistory st) (conversationHistory (run_events unicodeLower es st))"
  using run_events_history by (simp add: addUserMessage_def addAIMessage_def)

theorem history_append_only_witness:
  "conversationHistory
     (run_events id [InputTyped (js '' thanks ''), SendClicked, ReplyTimer (js ''thanks''), ResetClicked]
        (exampleState None))
   = [\<lparr>role = js ''user'', content = js ''thanks''\<rparr>, \<lparr>role = js ''ai'', content = thanksReply\<rparr>]
   \<and> prefix (conversationHistory (exampleState None))
        (conversationHistory
          (run_events id [InputTyped (js '' thanks ''), SendClicked, ReplyTimer (js ''thanks''), ResetClicked]
             (exampleState None)))"
proof -
  have "conversationHistory
     (run_events id [InputTyped (js '' thanks ''), SendClicked, ReplyTimer (js ''thanks''), ResetClicked]
        (exampleState None))
   = [\<lparr>role = js ''user'', content = js ''thanks''\<rparr>, \<lparr>role = js ''ai'', content = thanksReply\<rparr>]"
    by (simp add: run_events_def sendMessage_def trim_def isWhiteSpace_def Let_def
        addUserMessage_def addAIMessage_def sendMessage_timeout_def generateAIResponse_def
        resetUpload_def exampleState_def eval_js)
  then show ?thesis
    using history_append_only [of _ "exampleState None" id
        "[InputTyped (js '' thanks ''), SendClicked, ReplyTimer (js ''thanks''), ResetClicked]"]
    by simp
qed

section \<open>The checks of the startup script\<close>

lemma line_matches_iff:
  "line_matches l \<longleftrightarrow>
     (\<exists>p s. l = p @ key_assignment @ s \<and> (\<exists>c \<in> set s. c \<noteq> CHR ''_''))"
proof (induction l)
  case Nil
  then show ?case by (simp add: key_assignment_def)
next
  case (Cons c cs)
  show ?case
  proof
    assume "line_matches (c # cs)"
    then consider
      (here) "prefix key_assignment (c # cs)"
        "list_ex (\<lambda>x. x \<noteq> CHR ''_'') (drop (length key_assignment) (c # cs))"
      | (later) "line_matches cs"
      by auto
    then show "\<exists>p s. c # cs = p @ key_assignment @ s \<and> (\<exists>c \<in> set s. c \<noteq> CHR ''_'')"
    proof cases
      case here
      from here(1) obtain s where s: "c # cs = key_assignment @ s" by (auto simp: prefix_def)
      then have "drop (length key_assignment) (c # cs) = s" by simp
      with here(2) have "\<exists>c \<in> set s. c \<noteq> CHR ''_''" by (simp add: list_ex_iff)
      with s show ?thesis by (metis append_Nil)
    next
      case later
      with Cons.IH obtain p s where "cs = p @ key_assignment @ s" "\<exists>c \<in> set s. c \<noteq> CHR ''_''"
        by blast
      then have "c # cs = (c # p) @ key_assignment @ s" by simp
      with \<open>\<exists>c \<in> set s. c \<noteq> CHR ''_''\<close> show ?thesis by blast
    qed
  next
    assume "\<exists>p s. c # cs = p @ key_assignment @ s \<and> (\<exists>c \<in> set s. c \<noteq> CHR ''_'')"
    then obtain p s where ps: "c # cs = p @ key_assignment @ s" "\<exists>c \<in> set s. c \<noteq> CHR ''_''"
      by blast
    show "line_matches (c # cs)"
    proof (cases p)
      case Nil
      with ps(1) have "prefix key_assignment (c # cs)"
        "drop (length key_assignment) (c # cs) = s" by simp_all
      with ps(2) show ?thesis by (simp add: list_ex_iff)
    next
      case (Cons d p')
      with ps(1) have "cs = p' @ key_assignment @ s" by simp
      with ps(2) Cons.IH have "line_matches cs" by blast
      then show ?thesis by simp
    qed
  qed
qed

lemma grep_q_text:
  assumes "list_all isTextByte bytes"
  shows "grep_q grep_other bytes \<longleftrightarrow>
           (\<exists>l \<in> set (split_lines bytes). \<exists>p s.
               l = p @ key_assignment @ s \<and> (\<exists>c \<in> set s. c \<noteq> CHR ''_''))"
  using assms by (simp add: grep_q_def list_ex_iff line_matches_iff del: line_matches.simps)

lemma start_sh_outcome:
  "fst (start_sh grep_other w) =
     (if venv w = Directory
         \<and> (\<exists>bytes. dotenv w = RegularFile bytes \<and> grep_q grep_other bytes)
      then RunServer else Exit 1)"
  by (cases "dotenv w") (auto simp add: start_sh_def)

text \<open>
  C9 as worded has the script exit with code 1 when the key in the configuration file
  is a placeholder. The check only asks for a character other than the underscore after
  \<open>GEMINI_API_KEY=\<close>: with the placeholder that the script itself prints, the server
  is started.
\<close>

theorem placeholder_key_counterexample:
  "fst (start_sh (\<lambda>bytes. False)
          \<lparr>venv = Directory, dotenv = RegularFile placeholder_file,
           dotenv_example = RegularFile placeholder_file\<rparr>) = RunServer
   \<and> fst (start_sh (\<lambda>bytes. False)
          \<lparr>venv = Directory, dotenv = RegularFile placeholder_file,
           dotenv_example = RegularFile placeholder_file\<rparr>) \<noteq> Exit 1"
  by (simp add: start_sh_def grep_q_def placeholder_file_def key_assignment_def isTextByte_def)

text \<open>
  C9, amended. The startup script starts the server exactly when venv is a directory,
  .env is a regular file and the grep check on .env succeeds; in every other case it
  exits with code 1. On a .env of ASCII text the grep check succeeds exactly when some
  line holds \<open>GEMINI_API_KEY=\<close> followed, anywhere later on the line, by a character
  other than the underscore, so a placeholder text passes it. What grep answers on a file
  with a NUL byte or a byte above 0x7F is left open.
\<close>

theorem start_sh_preconditions:
  "fst (start_sh grep_other w) =
     (if venv w = Directory
         \<and> (\<exists>bytes. dotenv w = RegularFile bytes \<and> grep_q grep_other bytes)
      then RunServer else Exit 1)
   \<and> (list_all isTextByte text \<longrightarrow>
        grep_q grep_other text =
          (\<exists>l \<in> set (split_lines text). \<exists>p s.
              l = p @ key_assignment @ s \<and> (\<exists>c \<in> set s. c \<noteq> CHR ''_'')))"
proof (intro conjI impI)
  show "fst (start_sh grep_other w) =
     (if venv w = Directory
         \<and> (\<exists>bytes. dotenv w = RegularFile bytes \<and> grep_q grep_other bytes)
      then RunServer else Exit 1)"
    by (rule start_sh_outcome)
next
  assume "list_all isTextByte text"
  then show "grep_q grep_other text =
          (\<exists>l \<in> set (split_lines text). \<exists>p s.
              l = p @ key_assignment @ s \<and> (\<exists>c \<in> set s. c \<noteq> CHR ''_''))"
    by (rule grep_q_text)
qed

theorem start_sh_preconditions_witness:
  "list_all isTextByte ''# settings\<newline>GEMINI_API_KEY=\<newline>''
   \<and> fst (start_sh (\<lambda>bytes. False)
          \<lparr>venv = Directory, dotenv = RegularFile ''# settings\<newline>GEMINI_API_KEY=\<newline>'',
           dotenv_example = Absent\<rparr>) = Exit 1
   \<and> fst (start_sh (\<lambda>bytes. False)
          \<lparr>venv = Absent, dotenv = RegularFile ''GEMINI_API_KEY=AIzaSy\<newline>'',
           dotenv_example = Absent\<rparr>) = Exit 1
   \<and> fst (start_sh (\<lambda>bytes. False)
          \<lparr>venv = Directory, dotenv = Absent,
           dotenv_example = RegularFile ''GEMINI_API_KEY=\<newline>''\<rparr>) = Exit 1
   \<and> fst (start_sh (\<lambda>bytes. False)
          \<lparr>venv = Directory, dotenv = RegularFile (''GEMINI_API_KEY='' @ [CHR 0x00, CHR 0x0A]),
           dotenv_example = Absent\<rparr>) = Exit 1
   \<and> list_all isTextByte ''GEMINI_API_KEY=AIzaSy\<newline>''
   \<and> fst (start_sh (\<lambda>bytes. False)
          \<lparr>venv = Directory, dotenv = RegularFile ''GEMINI_API_KEY=AIzaSy\<newline>'',
           dotenv_example = Absent\<rparr>) = RunServer"
proof -
  have t1: "list_all isTextByte ''# settings\<newline>GEMINI_API_KEY=\<newline>''"
    and t2: "list_all isTextByte ''GEMINI_API_KEY=AIzaSy\<newline>''"
    by (simp_all add: isTextByte_def)
  have g1: "\<not> grep_q (\<lambda>bytes. False) ''# settings\<newline>GEMINI_API_KEY=\<newline>''"
    by (simp add: grep_q_def isTextByte_def key_assignment_def)
  have g2: "grep_q (\<lambda>bytes. False) ''GEMINI_API_KEY=AIzaSy\<newline>''"
    by (simp add: grep_q_def isTextByte_def key_assignment_def)
  have g3: "\<not> grep_q (\<lambda>bytes. False) (''GEMINI_API_KEY='' @ [CHR 0x00, CHR 0x0A])"
    by (simp add: grep_q_def isTextByte_def)
  show ?thesis
    using t1 t2 g1 g2 g3
      start_sh_preconditions [of "\<lambda>bytes. False"
        "\<lparr>venv = Directory, dotenv = RegularFile ''# settings\<newline>GEMINI_API_KEY=\<newline>'',
          dotenv_example = Absent\<rparr>"]
      start_sh_preconditions [of "\<lambda>bytes. False"
        "\<lparr>venv = Absent, dotenv = RegularFile ''GEMINI_API_KEY=AIzaSy\<newline>'',
          dotenv_example = Absent\<rparr>"]
      start_sh_preconditions [of "\<lambda>bytes. False"
        "\<lparr>venv = Directory, dotenv = Absent,
          dotenv_example = RegularFile ''GEMINI_API_KEY=\<newline>''\<rparr>"]
      start_sh_preconditions [of "\<lambda>bytes. False"
        "\<lparr>venv = Directory, dotenv = RegularFile (''GEMINI_API_KEY='' @ [CHR 0x00, CHR 0x0A]),
          dotenv_example = Absent\<rparr>"]
      start_sh_preconditions [of "\<lambda>bytes. False"
        "\<lparr>venv = Directory, dotenv = RegularFile ''GEMINI_API_KEY=AIzaSy\<newline>'',
          dotenv_example = Absent\<rparr>"]
    by simp
qed

section \<open>Keywords match inside words\<close>

text \<open>
  C10 as worded promises the greeting whenever "hi" occurs, no refusal trigger is
  present and no context-dependent rule matches. The gratitude rule comes before the
  greeting rule: "thanks for this" gets the gratitude reply.
\<close>

theorem thanks_for_this_counterexample:
  "includes_js (toLowerCase id (js ''thanks for this'')) (js ''hi'')
   \<and> \<not> refusalTriggered (toLowerCase id (js ''thanks for this''))
   \<and> currentMedication (exampleState None) = None
   \<and> fst (generateAIResponse id (js ''thanks for this'') (exampleState None)) \<noteq> greetingReply"
proof -
  have "fst (generateAIResponse id (js ''thanks for this'') (exampleState None)) = thanksReply"
    by (simp add: generateAIResponse_def Let_def exampleState_def eval_js)
  then show ?thesis
    using thanks_neq_greeting by (simp add: exampleState_def eval_js)
qed

text \<open>
  C10, amended. Keywords are matched as substrings of the lowercased utterance, not as
  words: for every utterance whose lowercased form contains "hi" (also inside a longer
  word such as "this") and does not contain "thank", with no refusal trigger present and
  no context-dependent rule matching, the reply is the fixed greeting, which differs from
  the fallback message.
\<close>

theorem hi_inside_word_greets:
  assumes "includes_js (toLowerCase unicodeLower u) (js ''hi'')"
    and "\<not> refusalTriggered (toLowerCase unicodeLower u)"
    and "currentMedication st = None \<or> firstMatch (toLowerCase unicodeLower u) contextRules = None"
    and "\<not> includes_js (toLowerCase unicodeLower u) (js ''thank'')"
  shows "fst (generateAIResponse unicodeLower u st) = greetingReply
         \<and> greetingReply \<noteq> defaultReply (currentMedication st)"
proof -
  have "fst (generateAIResponse unicodeLower u st) = greetingReply"
  proof (cases "currentMedication st")
    case None
    with assms show ?thesis
      by (simp add: generateAIResponse_def Let_def refusalTriggered_iff)
  next
    case (Some m)
    with assms(3) have "firstMatch (toLowerCase unicodeLower u) contextRules = None" by simp
    then have "\<not> includes_js (toLowerCase unicodeLower u) (js ''side effect'')"
      "\<not> includes_js (toLowerCase unicodeLower u) (js ''how to take'')"
      "\<not> includes_js (toLowerCase unicodeLower u) (js ''instruction'')"
      "\<not> includes_js (toLowerCase unicodeLower u) (js ''what is'')"
      "\<not> includes_js (toLowerCase unicodeLower u) (js ''what does'')"
      "\<not> includes_js (toLowerCase unicodeLower u) (js ''food'')"
      "\<not> includes_js (toLowerCase unicodeLower u) (js ''eat'')"
      "\<not> includes_js (toLowerCase unicodeLower u) (js ''miss'')"
      "\<not> includes_js (toLowerCase unicodeLower u) (js ''forgot'')"
      by (simp_all add: contextRules_def split: if_splits)
    with assms Some show ?thesis
      by (simp add: generateAIResponse_def Let_def refusalTriggered_iff)
  qed
  then show ?thesis by (simp add: greeting_neq_default)
qed

theorem hi_inside_word_greets_witness:
  "includes_js (toLowerCase id (js ''Is THIS ok?'')) (js ''hi'')
   \<and> \<not> includes_js (toLowerCase id (js ''Is THIS ok?'')) (js ''hello'')
   \<and> \<not> refusalTriggered (toLowerCase id (js ''Is THIS ok?''))
   \<and> firstMatch (toLowerCase id (js ''Is THIS ok?'')) contextRules = None
   \<and> \<not> includes_js (toLowerCase id (js ''Is THIS ok?'')) (js ''thank'')
   \<and> fst (generateAIResponse id (js ''Is THIS ok?'') (exampleState (Some aspirin))) = greetingReply"
proof -
  have a: "includes_js (toLowerCase id (js ''Is THIS ok?'')) (js ''hi'')" by (simp add: eval_js)
  have a': "\<not> includes_js (toLowerCase id (js ''Is THIS ok?'')) (js ''hello'')" by (simp add: eval_js)
  have b: "\<not> refusalTriggered (toLowerCase id (js ''Is THIS ok?''))" by (simp add: eval_js)
  have c: "firstMatch (toLowerCase id (js ''Is THIS ok?'')) contextRules = None"
    by (simp add: contextRules_def eval_js)
  have d: "\<not> includes_js (toLowerCase id (js ''Is THIS ok?'')) (js ''thank'')" by (simp add: eval_js)
  show ?thesis
    using a a' b c d hi_inside_word_greets [OF a b disjI2 [OF c] d, of "exampleState (Some aspirin)"]
    by blast
qed

end
